theory Spec2Isabelle
  imports Main
begin

section \<open>JavaScript values\<close>

text \<open>
  The values that flow through \<^verbatim>\<open>sendClientEvent\<close>, the channel's message listener and
  the \<^verbatim>\<open>/token\<close> handler. An object is the list of its own properties in insertion
  order; an array carries its items and, besides them, the named properties that
  JavaScript allows on any array. Numbers are restricted to integers.
\<close>

datatype jsval =
    JUndefined
  | JNull
  | JBool bool
  | JNum int
  | JStr string
  | JArr "jsval list" "(string \<times> jsval) list"
  | JObj "(string \<times> jsval) list"

datatype js_error = TypeError | SyntaxError

text \<open>The truthiness test behind \<^verbatim>\<open>!x\<close>, \<^verbatim>\<open>x || y\<close> and \<^verbatim>\<open>if (x)\<close>.\<close>

fun truthy :: "jsval \<Rightarrow> bool" where
  "truthy JUndefined = False"
| "truthy JNull = False"
| "truthy (JBool b) = b"
| "truthy (JNum n) = (n \<noteq> 0)"
| "truthy (JStr s) = (s \<noteq> [])"
| "truthy (JArr xs ps) = True"
| "truthy (JObj fs) = True"

text \<open>
  Assignment to a property of an object: an existing key keeps its position, a new key
  goes to the end.
\<close>

fun put_field :: "string \<Rightarrow> jsval \<Rightarrow> (string \<times> jsval) list \<Rightarrow> (string \<times> jsval) list" where
  "put_field k v [] = [(k, v)]"
| "put_field k v (p # fs) = (if fst p = k then (k, v) # fs else p # put_field k v fs)"

text \<open>The named own properties of a value; a primitive has none.\<close>

fun own_props :: "jsval \<Rightarrow> (string \<times> jsval) list" where
  "own_props (JObj fs) = fs"
| "own_props (JArr xs ps) = ps"
| "own_props v = []"

definition field :: "string \<Rightarrow> jsval \<Rightarrow> jsval" where
  "field k v = (case map_of (own_props v) k of None \<Rightarrow> JUndefined | Some x \<Rightarrow> x)"

text \<open>
  \<^verbatim>\<open>v.k\<close> for the keys \<^verbatim>\<open>event_id\<close> and \<^verbatim>\<open>timestamp\<close>, which no prototype defines:
  reading from \<^verbatim>\<open>null\<close> or \<^verbatim>\<open>undefined\<close> throws, reading from another primitive
  gives \<^verbatim>\<open>undefined\<close>.
\<close>

fun get_prop :: "string \<Rightarrow> jsval \<Rightarrow> js_error + jsval" where
  "get_prop k JUndefined = Inl TypeError"
| "get_prop k JNull = Inl TypeError"
| "get_prop k v = Inr (field k v)"

text \<open>
  \<^verbatim>\<open>v.k = x\<close> in module code, which is strict: assigning to a property of a primitive
  throws, as assigning to one of \<^verbatim>\<open>null\<close> or \<^verbatim>\<open>undefined\<close> does.
\<close>

fun set_prop :: "string \<Rightarrow> jsval \<Rightarrow> jsval \<Rightarrow> js_error + jsval" where
  "set_prop k x (JObj fs) = Inr (JObj (put_field k x fs))"
| "set_prop k x (JArr xs ps) = Inr (JArr xs (put_field k x ps))"
| "set_prop k x v = Inl TypeError"

text \<open>The values that can take a property: objects and arrays.\<close>

fun is_object :: "jsval \<Rightarrow> bool" where
  "is_object (JObj fs) = True"
| "is_object (JArr xs ps) = True"
| "is_object v = False"

text \<open>
  What \<^verbatim>\<open>JSON.stringify\<close> writes for a key of the value it is given: the properties
  of an object whose value is not \<^verbatim>\<open>undefined\<close>; the named properties of an array are
  not written.
\<close>

fun payload_fields :: "jsval \<Rightarrow> (string \<times> jsval) list" where
  "payload_fields (JObj fs) = filter (\<lambda>p. snd p \<noteq> JUndefined) fs"
| "payload_fields v = []"

definition payload_has :: "string \<Rightarrow> jsval \<Rightarrow> bool" where
  "payload_has k v = (k \<in> fst ` set (payload_fields v))"

section \<open>The browser and the component state\<close>

datatype ready_state = Connecting | Open | Closing | Closed

datatype resource = PeerConn nat | AudioEl nat | Track nat | Channel nat | Obj nat

datatype console_entry =
    ValidateError string
  | StartError string
  | SendFailed jsval string

text \<open>
  One record holds the state of \<^verbatim>\<open>App\<close> (the five \<^verbatim>\<open>useState\<close> cells and the two
  refs, under their names in \<^verbatim>\<open>App.jsx\<close>) and the part of the browser the component
  acts on. Platform objects are named by handles taken from the counter \<open>fresh\<close>;
  \<open>created\<close> lists them in the order of their construction. Event objects live in
  \<open>heap\<close>, and the event history is a list of their addresses, because
  \<^verbatim>\<open>sendClientEvent\<close> mutates the caller's object and stores that same object.
  \<open>wire\<close> lists the frames handed to \<^verbatim>\<open>dataChannel.send\<close>, each as the channel and
  the value that was serialised.
\<close>

record state =
  isSessionActive :: bool
  events :: "nat list"
  dataChannel :: "nat option"
  apiKey :: string
  isKeyValid :: bool
  peerConnection :: "nat option"
  audioElement :: "nat option"
  localStorage :: "string \<rightharpoonup> string"
  heap :: "nat \<Rightarrow> jsval"
  fresh :: nat
  created :: "resource list"
  dcState :: "nat \<Rightarrow> ready_state"
  pcClosed :: "nat \<Rightarrow> bool"
  pcSenders :: "nat \<Rightarrow> nat option list"
  trackLive :: "nat \<Rightarrow> bool"
  wire :: "(nat \<times> jsval) list"
  console :: "console_entry list"
  alerts :: "string list"

section \<open>Credential store\<close>

definition storage_key :: string where
  "storage_key = ''openai_api_key''"

text \<open>The effect of \<^verbatim>\<open>App.jsx\<close> lines 17--21, run after a render in which \<^verbatim>\<open>apiKey\<close> changed.\<close>

definition persist_effect :: "state \<Rightarrow> state" where
  "persist_effect s =
     (if apiKey s \<noteq> [] then s\<lparr>localStorage := (localStorage s)(storage_key \<mapsto> apiKey s)\<rparr>
      else s)"

text \<open>
  \<^verbatim>\<open>setApiKey(v)\<close>: the state cell takes the value; the effect above depends on
  \<^verbatim>\<open>[apiKey]\<close> and so runs only when the value differs from the one before.
\<close>

definition setApiKey :: "string \<Rightarrow> state \<Rightarrow> state" where
  "setApiKey v s =
     (if v = apiKey s then s else persist_effect (s\<lparr>apiKey := v\<rparr>))"

text \<open>
  \<^verbatim>\<open>validateApiKey(key)\<close>: the probe of the provider is a parameter, giving for a key
  either the message of the error \<^verbatim>\<open>fetch\<close> threw or \<^verbatim>\<open>response.ok\<close>.
\<close>

definition validateApiKey :: "(string \<Rightarrow> string + bool) \<Rightarrow> string \<Rightarrow> state \<Rightarrow> bool \<times> state" where
  "validateApiKey probe key s =
     (case probe key of
        Inr isValid \<Rightarrow> (isValid, s\<lparr>isKeyValid := isValid\<rparr>)
      | Inl msg \<Rightarrow> (False, s\<lparr>console := console s @ [ValidateError msg], isKeyValid := False\<rparr>))"

text \<open>The local state of \<^verbatim>\<open>SessionStopped\<close> and its \<^verbatim>\<open>handleSaveKey\<close>.\<close>

record stopped_ui =
  isActivating :: bool
  showKeyInput :: bool
  tempApiKey :: string

definition handleSaveKey :: "stopped_ui \<Rightarrow> state \<Rightarrow> stopped_ui \<times> state" where
  "handleSaveKey ui s = (ui\<lparr>showKeyInput := False\<rparr>, setApiKey (tempApiKey ui) s)"

text \<open>
  The first render of \<^verbatim>\<open>App\<close> over a given local storage, followed by the two effects
  that run on mount: the persistence effect and the validation of a stored key.
\<close>

definition initial :: "(string \<rightharpoonup> string) \<Rightarrow> state" where
  "initial store =
     \<lparr> isSessionActive = False, events = [], dataChannel = None,
       apiKey = (case store storage_key of None \<Rightarrow> [] | Some k \<Rightarrow> k),
       isKeyValid = False, peerConnection = None, audioElement = None,
       localStorage = store, heap = (\<lambda>a. JUndefined), fresh = 0, created = [],
       dcState = (\<lambda>h. Closed), pcClosed = (\<lambda>h. True), pcSenders = (\<lambda>h. []),
       trackLive = (\<lambda>h. False), wire = [], console = [], alerts = [] \<rparr>"

definition mount :: "(string \<Rightarrow> string + bool) \<Rightarrow> (string \<rightharpoonup> string) \<Rightarrow> state" where
  "mount probe store =
     (let s = persist_effect (initial store)
      in if apiKey s \<noteq> [] then snd (validateApiKey probe (apiKey s) s) else s)"

section \<open>Platform calls\<close>

text \<open>
  The constructors and methods of the browser that \<^verbatim>\<open>App.jsx\<close> calls, each with the
  effect the component relies on. A constructor takes the next handle and records the
  object in \<open>created\<close>.
\<close>

definition new_RTCPeerConnection :: "state \<Rightarrow> nat \<times> state" where
  "new_RTCPeerConnection s =
     (fresh s, s\<lparr>fresh := fresh s + 1, created := created s @ [PeerConn (fresh s)],
                 pcClosed := (pcClosed s)(fresh s := False),
                 pcSenders := (pcSenders s)(fresh s := [])\<rparr>)"

definition createElement_audio :: "state \<Rightarrow> nat \<times> state" where
  "createElement_audio s =
     (fresh s, s\<lparr>fresh := fresh s + 1, created := created s @ [AudioEl (fresh s)]\<rparr>)"

text \<open>The track at index 0 of the stream that a granted \<^verbatim>\<open>getUserMedia\<close> resolves to.\<close>

definition granted_track :: "state \<Rightarrow> nat \<times> state" where
  "granted_track s =
     (fresh s, s\<lparr>fresh := fresh s + 1, created := created s @ [Track (fresh s)],
                 trackLive := (trackLive s)(fresh s := True)\<rparr>)"

definition addTrack :: "nat \<Rightarrow> nat \<Rightarrow> state \<Rightarrow> state" where
  "addTrack pc t s = s\<lparr>pcSenders := (pcSenders s)(pc := pcSenders s pc @ [Some t])\<rparr>"

definition createDataChannel :: "nat \<Rightarrow> state \<Rightarrow> nat \<times> state" where
  "createDataChannel pc s =
     (fresh s, s\<lparr>fresh := fresh s + 1, created := created s @ [Channel (fresh s)],
                 dcState := (dcState s)(fresh s := Connecting)\<rparr>)"

text \<open>
  \<^verbatim>\<open>close()\<close> on a channel and on a peer connection, \<^verbatim>\<open>stop()\<close> on a track. The
  closing procedure of a channel is taken as run to its end.
\<close>

definition close_channel :: "nat \<Rightarrow> state \<Rightarrow> state" where
  "close_channel h s = s\<lparr>dcState := (dcState s)(h := Closed)\<rparr>"

definition stop_track :: "nat \<Rightarrow> state \<Rightarrow> state" where
  "stop_track t s = s\<lparr>trackLive := (trackLive s)(t := False)\<rparr>"

definition close_peer :: "nat \<Rightarrow> state \<Rightarrow> state" where
  "close_peer p s = s\<lparr>pcClosed := (pcClosed s)(p := True)\<rparr>"

text \<open>A method call on a reference that may be \<^verbatim>\<open>null\<close>: on \<^verbatim>\<open>null\<close> it throws.\<close>

fun call :: "'h option \<Rightarrow> ('h \<Rightarrow> state \<Rightarrow> state) \<Rightarrow> state \<Rightarrow> js_error + state" where
  "call None f s = Inl TypeError"
| "call (Some h) f s = Inr (f h s)"

fun forEach :: "('a \<Rightarrow> state \<Rightarrow> js_error + state) \<Rightarrow> 'a list \<Rightarrow> state \<Rightarrow> js_error + state" where
  "forEach f [] s = Inr s"
| "forEach f (x # xs) s = (case f x s of Inl e \<Rightarrow> Inl e | Inr s' \<Rightarrow> forEach f xs s')"

fun ready_state_name :: "ready_state \<Rightarrow> string" where
  "ready_state_name Connecting = ''connecting''"
| "ready_state_name Open = ''open''"
| "ready_state_name Closing = ''closing''"
| "ready_state_name Closed = ''closed''"

section \<open>Session manager\<close>

text \<open>
  What the outside world answers during one run of \<^verbatim>\<open>startSession\<close>. A rejected
  promise is given by the message of its error: \<open>Inl msg\<close>, or \<open>Some msg\<close> where the
  promise carries no value. \<open>negotiate key sdp\<close> is the \<^verbatim>\<open>POST\<close> of the offer with the
  bearer credential, answering \<^verbatim>\<open>response.ok\<close> and the text of the body.
\<close>

record start_env =
  probe :: "string \<Rightarrow> string + bool"
  getUserMedia :: "string + unit"
  createOffer :: "string + string"
  setLocalDescription :: "string option"
  negotiate :: "string \<Rightarrow> string \<Rightarrow> string + bool \<times> string"
  setRemoteDescription :: "string \<Rightarrow> string option"

text \<open>The way a run of \<^verbatim>\<open>startSession\<close> ends: its two early returns, its \<^verbatim>\<open>catch\<close>, or its last line.\<close>

datatype start_exit = Started | NoKey | InvalidKey | Failed string

text \<open>The \<^verbatim>\<open>catch\<close> block of \<^verbatim>\<open>startSession\<close>: it logs the error and raises an alert.\<close>

definition start_failed :: "string \<Rightarrow> state \<Rightarrow> start_exit \<times> state" where
  "start_failed msg s =
     (Failed msg, s\<lparr>console := console s @ [StartError msg],
                    alerts := alerts s @ [''Failed to start session: '' @ msg]\<rparr>)"

text \<open>
  \<^verbatim>\<open>startSession\<close>, \<^verbatim>\<open>App.jsx\<close> lines 41--109. Every \<^verbatim>\<open>await\<close> is a point where the
  run may fail, as \<open>env\<close> says; the constructors and the synchronous methods are taken
  not to throw. The handler stored in \<^verbatim>\<open>pc.ontrack\<close> acts on the audio element alone
  and is left out.
\<close>

definition startSession :: "start_env \<Rightarrow> state \<Rightarrow> start_exit \<times> state" where
  "startSession env s0 =
     (if apiKey s0 = [] then
        (NoKey, s0\<lparr>alerts := alerts s0 @ [''Please enter your OpenAI API key'']\<rparr>)
      else
        let (valid, s1) = (if isKeyValid s0 then (True, s0)
                           else validateApiKey (probe env) (apiKey s0) s0)
        in if \<not> valid then
             (InvalidKey, s1\<lparr>alerts := alerts s1 @ [''Invalid API key. Please check and try again.'']\<rparr>)
           else
             let (pc, s2) = new_RTCPeerConnection s1;
                 (au, s3) = createElement_audio s2;
                 s4 = s3\<lparr>audioElement := Some au\<rparr>
             in case getUserMedia env of
                  Inl msg \<Rightarrow> start_failed msg s4
                | Inr u \<Rightarrow>
                    let (t, s5) = granted_track s4;
                        s6 = addTrack pc t s5;
                        (dc, s7) = createDataChannel pc s6;
                        s8 = s7\<lparr>dataChannel := Some dc\<rparr>
                    in case createOffer env of
                         Inl msg \<Rightarrow> start_failed msg s8
                       | Inr sdp \<Rightarrow>
                           (case setLocalDescription env of
                              Some msg \<Rightarrow> start_failed msg s8
                            | None \<Rightarrow>
                                (case negotiate env (apiKey s0) sdp of
                                   Inl msg \<Rightarrow> start_failed msg s8
                                 | Inr (ok, text) \<Rightarrow>
                                     if \<not> ok then start_failed (''API request failed: '' @ text) s8
                                     else
                                       (case setRemoteDescription env text of
                                          Some msg \<Rightarrow> start_failed msg s8
                                        | None \<Rightarrow> (Started, s8\<lparr>peerConnection := Some pc\<rparr>)))))"

text \<open>The body of the \<^verbatim>\<open>forEach\<close> in \<^verbatim>\<open>stopSession\<close>; a sender is given by its track, if any.\<close>

definition stop_sender :: "nat option \<Rightarrow> state \<Rightarrow> js_error + state" where
  "stop_sender track s = (if track \<noteq> None then call track stop_track s else Inr s)"

text \<open>
  \<^verbatim>\<open>stopSession\<close>, \<^verbatim>\<open>App.jsx\<close> lines 112--130, with each of its guards and each
  call behind it.
\<close>

definition stopSession :: "state \<Rightarrow> js_error + state" where
  "stopSession s0 =
     (case (if dataChannel s0 \<noteq> None then call (dataChannel s0) close_channel s0 else Inr s0) of
        Inl e \<Rightarrow> Inl e
      | Inr s1 \<Rightarrow>
          (case (case peerConnection s1 of
                   None \<Rightarrow> Inr s1
                 | Some p \<Rightarrow> forEach stop_sender (pcSenders s1 p) s1) of
             Inl e \<Rightarrow> Inl e
           | Inr s2 \<Rightarrow>
               (case (if peerConnection s2 \<noteq> None then call (peerConnection s2) close_peer s2
                      else Inr s2) of
                  Inl e \<Rightarrow> Inl e
                | Inr s3 \<Rightarrow>
                    Inr (s3\<lparr>isSessionActive := False, dataChannel := None,
                             peerConnection := None\<rparr>))))"

text \<open>
  \<^verbatim>\<open>sendClientEvent(message)\<close>. The message is the address \<open>m\<close> of the caller's object;
  \<open>uuid\<close> is what \<^verbatim>\<open>crypto.randomUUID()\<close> returns if it is called and \<open>now\<close> what
  \<^verbatim>\<open>new Date().toLocaleTimeString()\<close> returns.
\<close>

definition sendClientEvent :: "string \<Rightarrow> string \<Rightarrow> nat \<Rightarrow> state \<Rightarrow> js_error + state" where
  "sendClientEvent uuid now m s =
     (case (case dataChannel s of None \<Rightarrow> None
            | Some h \<Rightarrow> if dcState s h = Open then Some h else None) of
        Some h \<Rightarrow>
          (case get_prop ''event_id'' (heap s m) of
             Inl e \<Rightarrow> Inl e
           | Inr eid \<Rightarrow>
               (case set_prop ''event_id'' (if truthy eid then eid else JStr uuid) (heap s m) of
                  Inl e \<Rightarrow> Inl e
                | Inr v1 \<Rightarrow>
                    (case get_prop ''timestamp'' v1 of
                       Inl e \<Rightarrow> Inl e
                     | Inr ts \<Rightarrow>
                         (case (if \<not> truthy ts then set_prop ''timestamp'' (JStr now) v1
                                else Inr v1) of
                            Inl e \<Rightarrow> Inl e
                          | Inr v2 \<Rightarrow>
                              Inr (s\<lparr>wire := wire s @ [(h, v1)],
                                     heap := (heap s)(m := v2),
                                     events := m # events s\<rparr>)))))
      | None \<Rightarrow>
          Inr (s\<lparr>console := console s @
                   [SendFailed (heap s m)
                      (case dataChannel s of
                         Some h \<Rightarrow> ''Channel state: '' @ ready_state_name (dcState s h)
                       | None \<Rightarrow> ''No channel'')]\<rparr>))"

text \<open>An object literal: a new object at the next address.\<close>

definition new_object :: "jsval \<Rightarrow> state \<Rightarrow> nat \<times> state" where
  "new_object v s =
     (fresh s, s\<lparr>fresh := fresh s + 1, created := created s @ [Obj (fresh s)],
                 heap := (heap s)(fresh s := v)\<rparr>)"

definition sendTextMessage ::
  "string \<Rightarrow> string \<Rightarrow> string \<Rightarrow> string \<Rightarrow> string \<Rightarrow> state \<Rightarrow> js_error + state" where
  "sendTextMessage uuid1 now1 uuid2 now2 message s0 =
     (let (event, s1) =
            new_object
              (JObj [(''type'', JStr ''conversation.item.create''),
                     (''item'', JObj [(''type'', JStr ''message''), (''role'', JStr ''user''),
                        (''content'', JArr [JObj [(''type'', JStr ''input_text''),
                                                  (''text'', JStr message)]] [])])]) s0
      in case sendClientEvent uuid1 now1 event s1 of
           Inl e \<Rightarrow> Inl e
         | Inr s2 \<Rightarrow>
             (let (create, s3) = new_object (JObj [(''type'', JStr ''response.create'')]) s2
              in sendClientEvent uuid2 now2 create s3))"

text \<open>
  The listener for \<^verbatim>\<open>message\<close> on the data channel. \<open>parsed\<close> is what \<^verbatim>\<open>JSON.parse\<close>
  makes of the frame: \<open>None\<close> when it throws, else the value, which is a new object.
\<close>

definition on_message :: "string \<Rightarrow> jsval option \<Rightarrow> state \<Rightarrow> js_error + state" where
  "on_message now parsed s0 =
     (case parsed of
        None \<Rightarrow> Inl SyntaxError
      | Some v \<Rightarrow>
          (let (event, s) = new_object v s0
           in case get_prop ''timestamp'' (heap s event) of
                Inl e \<Rightarrow> Inl e
              | Inr ts \<Rightarrow>
                  (case (if \<not> truthy ts then set_prop ''timestamp'' (JStr now) (heap s event)
                         else Inr (heap s event)) of
                     Inl e \<Rightarrow> Inl e
                   | Inr v' \<Rightarrow>
                       Inr (s\<lparr>heap := (heap s)(event := v'), events := event # events s\<rparr>))))"

text \<open>The listener for \<^verbatim>\<open>open\<close> on the data channel.\<close>

definition on_open :: "state \<Rightarrow> state" where
  "on_open s = s\<lparr>isSessionActive := True, events := []\<rparr>"

section \<open>Token relay\<close>

text \<open>
  The handler of \<^verbatim>\<open>GET /token\<close> in \<^verbatim>\<open>server.js\<close>. The call of the provider either
  throws (\<^verbatim>\<open>fetch\<close> or \<^verbatim>\<open>response.json()\<close> rejects, with the message given) or answers
  with an HTTP status and a JSON body.
\<close>

datatype upstream = Threw string | Replied nat jsval

record http_response =
  status :: nat
  body :: jsval

definition error_body :: "string \<Rightarrow> jsval" where
  "error_body msg =
     JObj [(''error'', JObj [(''message'', JStr msg), (''type'', JStr ''server_error'')])]"

definition token_handler :: "string option \<Rightarrow> (string \<Rightarrow> upstream) \<Rightarrow> http_response" where
  "token_handler apiKey' provider =
     (case apiKey' of
        None \<Rightarrow> \<lparr>status = 500, body = error_body ''OpenAI API key not configured''\<rparr>
      | Some k \<Rightarrow>
          if k = [] then \<lparr>status = 500, body = error_body ''OpenAI API key not configured''\<rparr>
          else
            (case provider k of
               Replied st data \<Rightarrow> \<lparr>status = 200, body = data\<rparr>
             | Threw msg \<Rightarrow>
                 \<lparr>status = 500,
                  body = error_body (if msg \<noteq> [] then msg else ''Failed to generate token'')\<rparr>))"

section \<open>Example states\<close>

definition example_store :: "string \<rightharpoonup> string" where
  "example_store = Map.empty(storage_key \<mapsto> ''sk-live'')"

text \<open>The application loaded over that storage, the stored key accepted by the provider.\<close>

definition example_idle :: state where
  "example_idle = mount (\<lambda>k. Inr True) example_store"

text \<open>A run of \<^verbatim>\<open>startSession\<close> in which every step succeeds.\<close>

definition example_env :: start_env where
  "example_env =
     \<lparr> probe = (\<lambda>k. Inr True), getUserMedia = Inr (), createOffer = Inr ''v=0 offer'',
       setLocalDescription = None, negotiate = (\<lambda>k sdp. Inr (True, ''v=0 answer'')),
       setRemoteDescription = (\<lambda>sdp. None) \<rparr>"

text \<open>
  The platform opens channel \<open>h\<close>: its ready state becomes \<^verbatim>\<open>open\<close> and the listener
  registered for \<^verbatim>\<open>open\<close> runs.
\<close>

definition channel_opens :: "nat \<Rightarrow> state \<Rightarrow> state" where
  "channel_opens h s = on_open (s\<lparr>dcState := (dcState s)(h := Open)\<rparr>)"

text \<open>
  A session after \<^verbatim>\<open>startSession\<close> has returned (peer connection 0, audio element 1,
  track 2 and channel 3, the channel still connecting), and the same session once the
  channel is open.
\<close>

definition example_starting :: state where
  "example_starting = snd (startSession example_env example_idle)"

definition example_active :: state where
  "example_active = channel_opens 3 example_starting"

text \<open>The active session with one more object, at address 4, for a caller to send.\<close>

definition example_with :: "jsval \<Rightarrow> state" where
  "example_with v = snd (new_object v example_active)"

text \<open>Runs of \<^verbatim>\<open>startSession\<close> that fail: at the microphone, and at the handshake.\<close>

definition env_denied :: start_env where
  "env_denied = example_env\<lparr>getUserMedia := Inl ''Permission denied''\<rparr>"

definition env_forbidden :: start_env where
  "env_forbidden = example_env\<lparr>negotiate := (\<lambda>k sdp. Inr (False, ''forbidden''))\<rparr>"

text \<open>
  A provider that accepts the key \<^verbatim>\<open>sk-live\<close> and no other, at the probe and at the
  handshake; the application loaded over a stored key that this provider rejects; and
  the key input holding a value to save.
\<close>

definition env_only_live :: start_env where
  "env_only_live =
     example_env\<lparr>probe := (\<lambda>k. Inr (k = ''sk-live'')),
                  negotiate := (\<lambda>k sdp. if k = ''sk-live'' then Inr (True, ''v=0 answer'')
                                         else Inr (False, ''Incorrect API key provided: '' @ k))\<rparr>"

definition example_unvalidated :: state where
  "example_unvalidated = mount (probe env_only_live) (Map.empty(storage_key \<mapsto> ''sk-other''))"

definition example_ui :: "string \<Rightarrow> stopped_ui" where
  "example_ui v = \<lparr>isActivating = False, showKeyInput = True, tempApiKey = v\<rparr>"

text \<open>Messages: two a caller may send, two the provider may send.\<close>

definition response_create :: jsval where
  "response_create = JObj [(''type'', JStr ''response.create'')]"

definition stamped_message :: jsval where
  "stamped_message =
     JObj [(''type'', JStr ''response.create''), (''timestamp'', JStr ''09:15:00'')]"

definition session_created :: jsval where
  "session_created = JObj [(''type'', JStr ''session.created''), (''event_id'', JStr ''event_1'')]"

definition anonymous_event :: jsval where
  "anonymous_event = JObj [(''type'', JStr ''session.created'')]"

section \<open>The example states, computed\<close>

lemmas platform_defs =
  new_RTCPeerConnection_def createElement_audio_def granted_track_def addTrack_def
  createDataChannel_def

lemma example_idle_eq:
  "example_idle =
     \<lparr> isSessionActive = False, events = [], dataChannel = None, apiKey = ''sk-live'',
       isKeyValid = True, peerConnection = None, audioElement = None,
       localStorage = Map.empty(storage_key \<mapsto> ''sk-live''), heap = (\<lambda>a. JUndefined),
       fresh = 0, created = [], dcState = (\<lambda>h. Closed), pcClosed = (\<lambda>h. True),
       pcSenders = (\<lambda>h. []), trackLive = (\<lambda>h. False), wire = [], console = [],
       alerts = [] \<rparr>"
  by (simp add: example_idle_def mount_def initial_def persist_effect_def validateApiKey_def
      example_store_def Let_def)

lemma example_starting_eq:
  "example_starting =
     \<lparr> isSessionActive = False, events = [], dataChannel = Some 3, apiKey = ''sk-live'',
       isKeyValid = True, peerConnection = Some 0, audioElement = Some 1,
       localStorage = Map.empty(storage_key \<mapsto> ''sk-live''), heap = (\<lambda>a. JUndefined),
       fresh = 4, created = [PeerConn 0, AudioEl 1, Track 2, Channel 3],
       dcState = (\<lambda>h. Closed)(3 := Connecting), pcClosed = (\<lambda>h. True)(0 := False),
       pcSenders = (\<lambda>h. [])(0 := [Some 2]), trackLive = (\<lambda>h. False)(2 := True),
       wire = [], console = [], alerts = [] \<rparr>"
  by (simp add: example_starting_def example_idle_eq startSession_def example_env_def
      platform_defs Let_def eval_nat_numeral)

lemma example_active_eq:
  "example_active =
     \<lparr> isSessionActive = True, events = [], dataChannel = Some 3, apiKey = ''sk-live'',
       isKeyValid = True, peerConnection = Some 0, audioElement = Some 1,
       localStorage = Map.empty(storage_key \<mapsto> ''sk-live''), heap = (\<lambda>a. JUndefined),
       fresh = 4, created = [PeerConn 0, AudioEl 1, Track 2, Channel 3],
       dcState = (\<lambda>h. Closed)(3 := Open), pcClosed = (\<lambda>h. True)(0 := False),
       pcSenders = (\<lambda>h. [])(0 := [Some 2]), trackLive = (\<lambda>h. False)(2 := True),
       wire = [], console = [], alerts = [] \<rparr>"
  by (simp add: example_active_def example_starting_eq channel_opens_def on_open_def)

lemma example_with_eq:
  "example_with v =
     example_active\<lparr>fresh := 5, created := [PeerConn 0, AudioEl 1, Track 2, Channel 3, Obj 4],
                    heap := (\<lambda>a. JUndefined)(4 := v)\<rparr>"
  by (simp add: example_with_def new_object_def example_active_eq)

lemma start_denied_eq:
  "startSession env_denied example_idle =
     (Failed ''Permission denied'',
      example_idle\<lparr>fresh := 2, created := [PeerConn 0, AudioEl 1], audioElement := Some 1,
                   pcClosed := (\<lambda>h. True)(0 := False), pcSenders := (\<lambda>h. [])(0 := []),
                   console := [StartError ''Permission denied''],
                   alerts := [''Failed to start session: Permission denied'']\<rparr>)"
  by (simp add: env_denied_def example_idle_eq startSession_def example_env_def start_failed_def
      platform_defs Let_def eval_nat_numeral)

lemma start_forbidden_eq:
  "startSession env_forbidden example_idle =
     (Failed ''API request failed: forbidden'',
      example_starting\<lparr>peerConnection := None,
                       console := [StartError ''API request failed: forbidden''],
                       alerts := [''Failed to start session: API request failed: forbidden'']\<rparr>)"
  by (simp add: env_forbidden_def example_starting_eq example_idle_eq startSession_def
      example_env_def start_failed_def platform_defs Let_def eval_nat_numeral)

section \<open>Properties of the session manager\<close>

lemma forEach_stop_sender:
  "forEach stop_sender xs s = Inr (s\<lparr>trackLive := \<lambda>t. trackLive s t \<and> Some t \<notin> set xs\<rparr>)"
proof (induction xs arbitrary: s)
  case Nil
  then show ?case by simp
next
  case (Cons x xs)
  show ?case
  proof (cases x)
    case None
    have "stop_sender None s = Inr s" by (simp add: stop_sender_def)
    then show ?thesis using None Cons.IH [of s] by simp
  next
    case (Some t)
    have step: "stop_sender (Some t) s = Inr (stop_track t s)"
      by (simp add: stop_sender_def)
    have live: "(\<lambda>u. trackLive (stop_track t s) u \<and> Some u \<notin> set xs) =
                (\<lambda>u. trackLive s u \<and> Some u \<notin> set (x # xs))"
      using Some by (auto simp: stop_track_def)
    have "forEach stop_sender (x # xs) s =
            Inr ((stop_track t s)\<lparr>trackLive := \<lambda>u. trackLive (stop_track t s) u \<and> Some u \<notin> set xs\<rparr>)"
      using Some step Cons.IH [of "stop_track t s"] by simp
    also have "(stop_track t s)\<lparr>trackLive := \<lambda>u. trackLive (stop_track t s) u \<and> Some u \<notin> set xs\<rparr>
               = s\<lparr>trackLive := \<lambda>u. trackLive s u \<and> Some u \<notin> set (x # xs)\<rparr>"
      unfolding live by (simp add: stop_track_def)
    finally show ?thesis .
  qed
qed

text \<open>
  C1, as the code has it. A run of \<^verbatim>\<open>startSession\<close> that fails leaves the session
  inactive if it was, leaves \<^verbatim>\<open>peerConnection.current\<close> as it was and raises one
  alert. It releases nothing. A credential failure creates nothing. A failure at the
  microphone leaves the peer connection of this run created and open; a later failure
  leaves, besides, the data channel handle set to the channel of this run and the
  acquired track live.
\<close>

theorem start_failure_effects:
  assumes "startSession env s = (ex, s')" and "ex \<noteq> Started"
  shows "isSessionActive s' = isSessionActive s
    \<and> peerConnection s' = peerConnection s
    \<and> (\<exists>a. alerts s' = alerts s @ [a])
    \<and> (\<forall>h. pcClosed s' h \<longrightarrow> pcClosed s h)
    \<and> (\<forall>h. dcState s' h = Closed \<longrightarrow> dcState s h = Closed)
    \<and> (\<forall>t. trackLive s t \<longrightarrow> trackLive s' t)
    \<and> (ex = NoKey \<or> ex = InvalidKey \<longrightarrow>
          created s' = created s \<and> fresh s' = fresh s \<and> dataChannel s' = dataChannel s
          \<and> pcClosed s' = pcClosed s \<and> dcState s' = dcState s \<and> trackLive s' = trackLive s)
    \<and> (\<forall>msg. ex = Failed msg \<longrightarrow>
          \<not> pcClosed s' (fresh s)
          \<and> ((\<exists>e. getUserMedia env = Inl e) \<longrightarrow>
                created s' = created s @ [PeerConn (fresh s), AudioEl (fresh s + 1)]
                \<and> dataChannel s' = dataChannel s)
          \<and> (getUserMedia env = Inr () \<longrightarrow>
                created s' = created s @ [PeerConn (fresh s), AudioEl (fresh s + 1),
                                          Track (fresh s + 2), Channel (fresh s + 3)]
                \<and> dataChannel s' = Some (fresh s + 3)
                \<and> dcState s' (fresh s + 3) = Connecting
                \<and> trackLive s' (fresh s + 2)
                \<and> pcSenders s' (fresh s) = [Some (fresh s + 2)]))"
  using assms
  by (auto simp: startSession_def validateApiKey_def start_failed_def platform_defs Let_def
      split: if_splits sum.splits option.splits prod.splits)

theorem start_failure_effects_witness:
  "fst (startSession env_forbidden example_idle) = Failed ''API request failed: forbidden''
   \<and> \<not> isSessionActive (snd (startSession env_forbidden example_idle))
   \<and> peerConnection (snd (startSession env_forbidden example_idle)) = None
   \<and> alerts (snd (startSession env_forbidden example_idle)) =
       [''Failed to start session: API request failed: forbidden'']
   \<and> created (snd (startSession env_forbidden example_idle)) =
       [PeerConn 0, AudioEl 1, Track 2, Channel 3]
   \<and> dataChannel (snd (startSession env_forbidden example_idle)) = Some 3
   \<and> dcState (snd (startSession env_forbidden example_idle)) 3 = Connecting
   \<and> trackLive (snd (startSession env_forbidden example_idle)) 2
   \<and> \<not> pcClosed (snd (startSession env_forbidden example_idle)) 0"
proof -
  have run: "startSession env_forbidden example_idle =
      (Failed ''API request failed: forbidden'', snd (startSession env_forbidden example_idle))"
    by (simp add: start_forbidden_eq)
  have failed: "Failed ''API request failed: forbidden'' \<noteq> Started"
    by simp
  show ?thesis
    using start_failure_effects [OF run failed]
    by (simp add: start_forbidden_eq example_starting_eq)
qed

text \<open>
  C1 as stated fails. With a valid credential and a handshake answered 403
  \<^verbatim>\<open>forbidden\<close>, \<^verbatim>\<open>startSession\<close> alerts and returns with the data channel handle
  still set, the channel not closed, the peer connection open and the microphone track
  live.
\<close>

theorem start_failure_rollback_counterexample:
  "fst (startSession env_forbidden example_idle) = Failed ''API request failed: forbidden''
   \<and> dataChannel (snd (startSession env_forbidden example_idle)) = Some 3
   \<and> dcState (snd (startSession env_forbidden example_idle)) 3 = Connecting
   \<and> \<not> pcClosed (snd (startSession env_forbidden example_idle)) 0
   \<and> pcSenders (snd (startSession env_forbidden example_idle)) 0 = [Some 2]
   \<and> trackLive (snd (startSession env_forbidden example_idle)) 2"
  by (simp add: start_forbidden_eq example_starting_eq)

text \<open>
  C2, as the code has it. \<^verbatim>\<open>startSession\<close> creates the peer connection and the audio
  element before it asks for the microphone. With a credential that is present and
  valid, a run in which the microphone is refused ends in the \<^verbatim>\<open>catch\<close> with exactly
  these two objects created: the peer connection is open and not retained, no channel
  and no track exists, and the alert carries the message of the refusal.
\<close>

theorem microphone_denied_effects:
  assumes "apiKey s \<noteq> []" and "isKeyValid s \<or> probe env (apiKey s) = Inr True"
    and "getUserMedia env = Inl msg"
  shows "fst (startSession env s) = Failed msg
    \<and> created (snd (startSession env s)) =
        created s @ [PeerConn (fresh s), AudioEl (fresh s + 1)]
    \<and> \<not> pcClosed (snd (startSession env s)) (fresh s)
    \<and> peerConnection (snd (startSession env s)) = peerConnection s
    \<and> dataChannel (snd (startSession env s)) = dataChannel s
    \<and> dcState (snd (startSession env s)) = dcState s
    \<and> trackLive (snd (startSession env s)) = trackLive s
    \<and> alerts (snd (startSession env s)) = alerts s @ [''Failed to start session: '' @ msg]"
  using assms
  by (auto simp: startSession_def validateApiKey_def start_failed_def platform_defs Let_def
      split: if_splits sum.splits option.splits prod.splits)

theorem microphone_denied_effects_witness:
  "fst (startSession env_denied example_idle) = Failed ''Permission denied''
   \<and> created (snd (startSession env_denied example_idle)) = [PeerConn 0, AudioEl 1]
   \<and> peerConnection (snd (startSession env_denied example_idle)) = None
   \<and> dataChannel (snd (startSession env_denied example_idle)) = None
   \<and> alerts (snd (startSession env_denied example_idle)) =
       [''Failed to start session: Permission denied'']"
proof -
  have key: "apiKey example_idle \<noteq> []"
    by (simp add: example_idle_eq)
  have valid: "isKeyValid example_idle \<or> probe env_denied (apiKey example_idle) = Inr True"
    by (simp add: example_idle_eq)
  have mic: "getUserMedia env_denied = Inl ''Permission denied''"
    by (simp add: env_denied_def)
  show ?thesis
    using microphone_denied_effects [OF key valid mic]
    unfolding start_denied_eq by (simp add: example_idle_eq)
qed

text \<open>
  C2 as stated fails. In a run in which the microphone is refused a peer connection has
  been created all the same: the constructor is called before \<^verbatim>\<open>getUserMedia\<close>.
\<close>

theorem microphone_denied_counterexample:
  "fst (startSession env_denied example_idle) = Failed ''Permission denied''
   \<and> created example_idle = []
   \<and> created (snd (startSession env_denied example_idle)) = [PeerConn 0, AudioEl 1]
   \<and> \<not> pcClosed (snd (startSession env_denied example_idle)) 0"
  unfolding start_denied_eq by (simp add: example_idle_eq)

text \<open>
  C5, as the code has it. From every state \<^verbatim>\<open>stopSession\<close> returns without throwing;
  afterwards the session is inactive and both references are cleared; the channel that
  was held is closed, the peer connection that was held is closed, and the track of
  each of its senders is stopped. Nothing else is released: a channel, a peer
  connection and a track that the component does not hold are left as they are.
  Stopping again changes nothing.
\<close>

theorem stop_releases_held_handles:
  "\<exists>s'. stopSession s = Inr s'
     \<and> \<not> isSessionActive s' \<and> dataChannel s' = None \<and> peerConnection s' = None
     \<and> (\<forall>h. dataChannel s = Some h \<longrightarrow> dcState s' h = Closed)
     \<and> (\<forall>p. peerConnection s = Some p \<longrightarrow>
            pcClosed s' p \<and> (\<forall>t. Some t \<in> set (pcSenders s p) \<longrightarrow> \<not> trackLive s' t))
     \<and> (\<forall>h. dataChannel s \<noteq> Some h \<longrightarrow> dcState s' h = dcState s h)
     \<and> (\<forall>p. peerConnection s \<noteq> Some p \<longrightarrow> pcClosed s' p = pcClosed s p)
     \<and> (\<forall>t. (\<forall>p. peerConnection s = Some p \<longrightarrow> Some t \<notin> set (pcSenders s p)) \<longrightarrow>
            trackLive s' t = trackLive s t)
     \<and> stopSession s' = Inr s'"
  by (cases "dataChannel s"; cases "peerConnection s")
     (simp_all add: stopSession_def close_channel_def close_peer_def forEach_stop_sender)

theorem stop_releases_held_handles_witness:
  "dataChannel example_active = Some 3 \<and> dcState example_active 3 = Open
   \<and> peerConnection example_active = Some 0 \<and> \<not> pcClosed example_active 0
   \<and> pcSenders example_active 0 = [Some 2] \<and> trackLive example_active 2
   \<and> (\<exists>s'. stopSession example_active = Inr s'
         \<and> \<not> isSessionActive s' \<and> dataChannel s' = None \<and> peerConnection s' = None
         \<and> dcState s' 3 = Closed \<and> pcClosed s' 0 \<and> \<not> trackLive s' 2
         \<and> stopSession s' = Inr s')
   \<and> dataChannel (snd (startSession env_forbidden example_idle)) = Some 3
   \<and> peerConnection (snd (startSession env_forbidden example_idle)) = None
   \<and> (\<exists>s'. stopSession (snd (startSession env_forbidden example_idle)) = Inr s'
         \<and> dcState s' 3 = Closed
         \<and> pcClosed s' 0 = pcClosed (snd (startSession env_forbidden example_idle)) 0
         \<and> trackLive s' 2 = trackLive (snd (startSession env_forbidden example_idle)) 2)"
proof -
  have held: "dataChannel example_active = Some 3 \<and> dcState example_active 3 = Open
     \<and> peerConnection example_active = Some 0 \<and> \<not> pcClosed example_active 0
     \<and> pcSenders example_active 0 = [Some 2] \<and> trackLive example_active 2"
    by (simp add: example_active_eq)
  have kept: "dataChannel (snd (startSession env_forbidden example_idle)) = Some 3
     \<and> peerConnection (snd (startSession env_forbidden example_idle)) = None"
    by (simp add: start_forbidden_eq example_starting_eq)
  show ?thesis
    using held kept stop_releases_held_handles [of example_active]
      stop_releases_held_handles [of "snd (startSession env_forbidden example_idle)"]
    by auto
qed

text \<open>
  C5 as stated fails in the state that a failed start leaves behind. After a handshake
  answered 403 the component holds the channel but not the peer connection, which
  \<^verbatim>\<open>startSession\<close> stores in its last line only. \<^verbatim>\<open>stopSession\<close> then closes the
  channel and clears the references; the peer connection stays open and the track of
  its sender stays live.
\<close>

theorem stop_after_failed_start_counterexample:
  "\<exists>s'. stopSession (snd (startSession env_forbidden example_idle)) = Inr s'
     \<and> dataChannel s' = None \<and> peerConnection s' = None \<and> dcState s' 3 = Closed
     \<and> \<not> pcClosed s' 0 \<and> pcSenders s' 0 = [Some 2] \<and> trackLive s' 2"
  by (simp add: start_forbidden_eq example_starting_eq stopSession_def close_channel_def)

text \<open>
  C8. When the channel is absent or not open, \<^verbatim>\<open>sendClientEvent\<close> returns without
  throwing, whatever the message is; it sends no frame, leaves the event history and
  the message untouched, and writes one entry to the console.
\<close>

theorem send_on_closed_channel_reports:
  assumes "dataChannel s = None \<or> (\<exists>h. dataChannel s = Some h \<and> dcState s h \<noteq> Open)"
  shows "\<exists>s' txt. sendClientEvent uuid now m s = Inr s'
     \<and> wire s' = wire s \<and> events s' = events s \<and> heap s' = heap s
     \<and> console s' = console s @ [SendFailed (heap s m) txt]"
  using assms by (auto simp: sendClientEvent_def)

theorem send_on_closed_channel_reports_witness:
  "dataChannel example_starting = Some 3 \<and> dcState example_starting 3 = Connecting
   \<and> (\<exists>s' txt. sendClientEvent ''id-1'' ''10:30:00'' 4 example_starting = Inr s'
         \<and> wire s' = [] \<and> events s' = []
         \<and> console s' = [SendFailed JUndefined txt])"
proof -
  have closed: "dataChannel example_starting = None
      \<or> (\<exists>h. dataChannel example_starting = Some h \<and> dcState example_starting h \<noteq> Open)"
    by (simp add: example_starting_eq)
  show ?thesis
    using send_on_closed_channel_reports [OF closed, of "''id-1''" "''10:30:00''" 4]
    by (auto simp: example_starting_eq)
qed

section \<open>Properties of the credential store\<close>

lemma apiKey_mount:
  "apiKey (mount pr store) = (case store storage_key of None \<Rightarrow> [] | Some k \<Rightarrow> k)"
  by (simp add: mount_def initial_def persist_effect_def validateApiKey_def Let_def
      split: sum.splits option.splits)

text \<open>
  C10. Setting the credential to the empty string leaves local storage as it was: the
  persistence effect writes only a non-empty value. A credential stored before is
  therefore still stored afterwards, and the next start of the application loads it.
\<close>

theorem empty_credential_keeps_persisted_copy:
  assumes "tempApiKey ui = []" and "localStorage s storage_key = Some k"
  shows "localStorage (snd (handleSaveKey ui s)) = localStorage s
   \<and> apiKey (snd (handleSaveKey ui s)) = []
   \<and> localStorage (snd (handleSaveKey ui s)) storage_key = Some k
   \<and> apiKey (mount pr (localStorage (snd (handleSaveKey ui s)))) = k"
  using assms
  by (simp add: handleSaveKey_def setApiKey_def persist_effect_def apiKey_mount)

theorem empty_credential_keeps_persisted_copy_witness:
  "apiKey (mount (\<lambda>k. Inr True) example_store) = ''sk-live''
   \<and> apiKey (snd (handleSaveKey \<lparr>isActivating = False, showKeyInput = True, tempApiKey = []\<rparr>
                (mount (\<lambda>k. Inr True) example_store))) = []
   \<and> localStorage (snd (handleSaveKey \<lparr>isActivating = False, showKeyInput = True, tempApiKey = []\<rparr>
                (mount (\<lambda>k. Inr True) example_store))) storage_key = Some ''sk-live''
   \<and> apiKey (mount (\<lambda>k. Inr False)
        (localStorage (snd (handleSaveKey \<lparr>isActivating = False, showKeyInput = True, tempApiKey = []\<rparr>
                (mount (\<lambda>k. Inr True) example_store))))) = ''sk-live''"
proof -
  have empty: "tempApiKey \<lparr>isActivating = False, showKeyInput = True, tempApiKey = []\<rparr> = []"
    by simp
  have stored: "localStorage (mount (\<lambda>k. Inr True) example_store) storage_key = Some ''sk-live''"
    by (simp add: mount_def initial_def persist_effect_def validateApiKey_def Let_def
        example_store_def)
  have loaded: "apiKey (mount (\<lambda>k. Inr True) example_store) = ''sk-live''"
    by (simp add: apiKey_mount example_store_def)
  show ?thesis
    using loaded empty_credential_keeps_persisted_copy [OF empty stored, of \<open>\<lambda>k. Inr False\<close>]
    by blast
qed

text \<open>
  What saving a key does: the key is stored in \<^verbatim>\<open>apiKey\<close>; a key that is not empty
  and differs from the current one is written to local storage, any other leaves local
  storage as it was. \<^verbatim>\<open>isKeyValid\<close> is not written, and with the flag set
  \<^verbatim>\<open>startSession\<close> takes neither of its two early returns, whatever the provider
  thinks of the key.
\<close>

lemma handleSaveKey_leaves_validity_flag:
  "apiKey (snd (handleSaveKey ui s)) = tempApiKey ui
   \<and> isKeyValid (snd (handleSaveKey ui s)) = isKeyValid s
   \<and> (tempApiKey ui \<noteq> [] \<and> tempApiKey ui \<noteq> apiKey s \<longrightarrow>
        localStorage (snd (handleSaveKey ui s)) = (localStorage s)(storage_key \<mapsto> tempApiKey ui))
   \<and> (tempApiKey ui = [] \<or> tempApiKey ui = apiKey s \<longrightarrow>
        localStorage (snd (handleSaveKey ui s)) = localStorage s)
   \<and> (isKeyValid s \<and> tempApiKey ui \<noteq> [] \<longrightarrow>
        fst (startSession env (snd (handleSaveKey ui s))) \<noteq> NoKey
        \<and> fst (startSession env (snd (handleSaveKey ui s))) \<noteq> InvalidKey)"
  by (auto simp: handleSaveKey_def setApiKey_def persist_effect_def startSession_def
      start_failed_def platform_defs Let_def split: sum.splits option.splits prod.splits)

text \<open>
  C6 fails on the code: \<^verbatim>\<open>handleSaveKey\<close> leaves the validity flag of the key it
  replaces, where the comment in \<^verbatim>\<open>startSession\<close> (``Validate the API key first'')
  and the other save button, which calls \<^verbatim>\<open>validateApiKey\<close>, have a key validated
  before it is used. The stored key \<^verbatim>\<open>sk-live\<close> has been validated; the key
  \<^verbatim>\<open>sk-other\<close>, which the provider rejects, is saved over it. The flag still reads
  valid, and \<^verbatim>\<open>startSession\<close> does not probe the new key: it creates the peer
  connection, the track and the channel and sends the offer under the new key, and
  only the handshake fails.
\<close>

theorem replaced_credential_is_treated_as_valid:
  "isKeyValid example_idle \<and> apiKey example_idle = ''sk-live''
   \<and> probe env_only_live ''sk-other'' = Inr False
   \<and> apiKey (snd (handleSaveKey (example_ui ''sk-other'') example_idle)) = ''sk-other''
   \<and> localStorage (snd (handleSaveKey (example_ui ''sk-other'') example_idle)) storage_key
        = Some ''sk-other''
   \<and> isKeyValid (snd (handleSaveKey (example_ui ''sk-other'') example_idle))
   \<and> fst (startSession env_only_live (snd (handleSaveKey (example_ui ''sk-other'') example_idle)))
        = Failed ''API request failed: Incorrect API key provided: sk-other''
   \<and> created (snd (startSession env_only_live
                 (snd (handleSaveKey (example_ui ''sk-other'') example_idle))))
        = [PeerConn 0, AudioEl 1, Track 2, Channel 3]"
  by (simp add: example_idle_eq example_ui_def handleSaveKey_def setApiKey_def
      persist_effect_def env_only_live_def example_env_def startSession_def start_failed_def
      platform_defs Let_def eval_nat_numeral)

text \<open>
  The flag is stale in the other direction too: a key that the provider accepts, saved
  over one that it rejected, is left marked as not valid.
\<close>

lemma saved_good_key_stays_unvalidated:
  "apiKey example_unvalidated = ''sk-other'' \<and> \<not> isKeyValid example_unvalidated
   \<and> probe env_only_live ''sk-live'' = Inr True
   \<and> apiKey (snd (handleSaveKey (example_ui ''sk-live'') example_unvalidated)) = ''sk-live''
   \<and> \<not> isKeyValid (snd (handleSaveKey (example_ui ''sk-live'') example_unvalidated))"
  by (simp add: example_unvalidated_def mount_def initial_def persist_effect_def
      validateApiKey_def env_only_live_def example_env_def example_ui_def handleSaveKey_def
      setApiKey_def Let_def)

section \<open>Properties of the token relay\<close>

text \<open>
  What the handler does. It answers 500 with a body
  \<^verbatim>\<open>{ error: { message, type: "server_error" } }\<close> when the secret is not configured
  (unset or empty) and when \<^verbatim>\<open>fetch\<close> or the reading of the JSON body throws. In
  every other case it answers 200 with the body the provider sent, whatever the status
  of the provider's answer.
\<close>

lemma token_relay_responses:
  "((apiKey' = None \<or> apiKey' = Some [] \<or> (\<exists>k msg. apiKey' = Some k \<and> provider k = Threw msg))
      \<longrightarrow> status (token_handler apiKey' provider) = 500
          \<and> (\<exists>msg. msg \<noteq> [] \<and> body (token_handler apiKey' provider) =
                JObj [(''error'', JObj [(''message'', JStr msg), (''type'', JStr ''server_error'')])]))
   \<and> (\<forall>k st data. apiKey' = Some k \<and> k \<noteq> [] \<and> provider k = Replied st data
          \<longrightarrow> token_handler apiKey' provider = \<lparr>status = 200, body = data\<rparr>)"
  by (auto simp: token_handler_def error_body_def split: option.splits upstream.splits)

text \<open>
  C7 fails on the code where the call of the provider fails with an answer: the
  handler reads the body without looking at \<^verbatim>\<open>response.ok\<close>, as the requests of
  \<^verbatim>\<open>App.jsx\<close> do, and so its \<^verbatim>\<open>catch\<close> block, which answers 500 for a token that
  could not be generated, is not reached. With the secret configured and the provider
  answering 401 with an error body, the handler answers 200 with that body: neither
  the \<^verbatim>\<open>server_error\<close> body with status 500 nor a session credential.
\<close>

theorem provider_error_is_relayed_with_status_200:
  "token_handler (Some ''sk-server'')
     (\<lambda>k. Replied 401 (JObj [(''error'', JObj [(''message'', JStr ''Incorrect API key'')])])) =
   \<lparr>status = 200, body = JObj [(''error'', JObj [(''message'', JStr ''Incorrect API key'')])]\<rparr>
   \<and> status (token_handler (Some ''sk-server'')
        (\<lambda>k. Replied 401 (JObj [(''error'', JObj [(''message'', JStr ''Incorrect API key'')])])))
       \<noteq> 500
   \<and> field ''client_secret'' (body (token_handler (Some ''sk-server'')
        (\<lambda>k. Replied 401 (JObj [(''error'', JObj [(''message'', JStr ''Incorrect API key'')])]))))
       = JUndefined"
  by (simp add: token_handler_def field_def)

section \<open>Properties of the event channel\<close>

lemma map_of_put_field: "map_of (put_field k x fs) = (map_of fs)(k \<mapsto> x)"
  by (induction fs) auto

lemma field_set_prop:
  "set_prop k x v = Inr v' \<Longrightarrow> field k' v' = (if k' = k then x else field k' v)"
  by (cases v) (auto simp: field_def map_of_put_field)

lemma set_prop_object: "is_object v \<Longrightarrow> \<exists>v'. set_prop k x v = Inr v' \<and> is_object v'"
  by (cases v) auto

lemma set_prop_primitive: "\<not> is_object v \<Longrightarrow> set_prop k x v = Inl TypeError"
  by (cases v) auto

lemma get_prop_object: "is_object v \<Longrightarrow> get_prop k v = Inr (field k v)"
  by (cases v) auto

lemma payload_keys_put_field:
  "k \<noteq> k' \<Longrightarrow> (k \<in> fst ` set (filter P (put_field k' x fs))) = (k \<in> fst ` set (filter P fs))"
  by (induction fs) auto

lemma payload_has_set_prop:
  assumes "set_prop k' x v = Inr v'" and "k \<noteq> k'"
  shows "payload_has k v' = payload_has k v"
proof (cases v)
  case (JObj fs)
  then have "v' = JObj (put_field k' x fs)" using assms(1) by simp
  then show ?thesis
    using JObj payload_keys_put_field [OF assms(2), of "\<lambda>p. snd p \<noteq> JUndefined" x fs]
    by (simp add: payload_has_def del: set_filter)
next
  case (JArr xs ps)
  then show ?thesis using assms(1) by (auto simp: payload_has_def)
qed (use assms(1) in simp_all)

text \<open>What a call on an open channel does with a message that is an object.\<close>

lemma sendClientEvent_open:
  assumes "dataChannel s = Some h" and "dcState s h = Open" and "is_object (heap s m)"
  shows "\<exists>v1 v2.
      set_prop ''event_id''
        (if truthy (field ''event_id'' (heap s m)) then field ''event_id'' (heap s m)
         else JStr uuid) (heap s m) = Inr v1
    \<and> (if truthy (field ''timestamp'' v1) then v2 = v1
        else set_prop ''timestamp'' (JStr now) v1 = Inr v2)
    \<and> sendClientEvent uuid now m s =
        Inr (s\<lparr>wire := wire s @ [(h, v1)], heap := (heap s)(m := v2), events := m # events s\<rparr>)"
proof -
  obtain v1 where v1: "set_prop ''event_id''
        (if truthy (field ''event_id'' (heap s m)) then field ''event_id'' (heap s m)
         else JStr uuid) (heap s m) = Inr v1" and o1: "is_object v1"
    using set_prop_object [OF assms(3)] by blast
  obtain v2 where v2: "set_prop ''timestamp'' (JStr now) v1 = Inr v2"
    using set_prop_object [OF o1] by blast
  show ?thesis
    using assms v1 v2 o1
    by (auto simp: sendClientEvent_def get_prop_object)
qed

lemma sendClientEvent_primitive:
  assumes "dataChannel s = Some h" and "dcState s h = Open" and "\<not> is_object (heap s m)"
  shows "sendClientEvent uuid now m s = Inl TypeError"
  using assms by (cases "heap s m") (auto simp: sendClientEvent_def)

lemma on_message_object:
  assumes "is_object v"
  shows "\<exists>v'. (if truthy (field ''timestamp'' v) then v' = v
               else set_prop ''timestamp'' (JStr now) v = Inr v')
    \<and> on_message now (Some v) s =
        Inr (s\<lparr>fresh := fresh s + 1, created := created s @ [Obj (fresh s)],
               heap := (heap s)(fresh s := v'), events := fresh s # events s\<rparr>)"
proof -
  obtain v2 where v2: "set_prop ''timestamp'' (JStr now) v = Inr v2"
    using set_prop_object [OF assms] by blast
  show ?thesis
    using assms v2 by (auto simp: on_message_def new_object_def get_prop_object)
qed


text \<open>
  On an open channel the frame has a \<^verbatim>\<open>timestamp\<close> field exactly when the caller's
  message had one, and the recorded event has the message's own timestamp, if that was
  truthy, or the time of the call.
\<close>

lemma frame_timestamp_follows_message:
  assumes "dataChannel s = Some h" and "dcState s h = Open" and "is_object (heap s m)"
  shows "\<exists>s' frame. sendClientEvent uuid now m s = Inr s'
     \<and> wire s' = wire s @ [(h, frame)]
     \<and> payload_has ''timestamp'' frame = payload_has ''timestamp'' (heap s m)
     \<and> hd (events s') = m
     \<and> field ''timestamp'' (heap s' m) =
          (if truthy (field ''timestamp'' (heap s m)) then field ''timestamp'' (heap s m)
           else JStr now)"
proof -
  obtain v1 v2 where
    v1: "set_prop ''event_id''
        (if truthy (field ''event_id'' (heap s m)) then field ''event_id'' (heap s m)
         else JStr uuid) (heap s m) = Inr v1"
    and v2: "if truthy (field ''timestamp'' v1) then v2 = v1
        else set_prop ''timestamp'' (JStr now) v1 = Inr v2"
    and run: "sendClientEvent uuid now m s =
        Inr (s\<lparr>wire := wire s @ [(h, v1)], heap := (heap s)(m := v2), events := m # events s\<rparr>)"
    using sendClientEvent_open [OF assms] by blast
  have ts1: "field ''timestamp'' v1 = field ''timestamp'' (heap s m)"
    using field_set_prop [OF v1, of "''timestamp''"] by simp
  have "payload_has ''timestamp'' v1 = payload_has ''timestamp'' (heap s m)"
    using payload_has_set_prop [OF v1, of "''timestamp''"] by simp
  moreover have "field ''timestamp'' v2 =
          (if truthy (field ''timestamp'' (heap s m)) then field ''timestamp'' (heap s m)
           else JStr now)"
    using v2 ts1 by (auto simp: field_set_prop split: if_splits)
  ultimately show ?thesis using run by simp
qed


text \<open>
  C3 fails on the code, against the comment at the \<^verbatim>\<open>send\<close> call (``the backend peer
  doesn't expect this field''). A message that carries a timestamp is transmitted with
  it.
\<close>

theorem stamped_message_is_sent_with_timestamp:
  "\<exists>s'. sendClientEvent ''id-1'' ''10:30:00'' 4 (example_with stamped_message) = Inr s'
     \<and> wire s' = [(3, JObj [(''type'', JStr ''response.create''),
                            (''timestamp'', JStr ''09:15:00''),
                            (''event_id'', JStr ''id-1'')])]
     \<and> payload_has ''timestamp'' (snd (last (wire s')))"
  by (simp add: sendClientEvent_def example_with_eq example_active_eq field_def
      payload_has_def stamped_message_def)

text \<open>
  The same happens when an object is sent a second time: the first call has written
  \<^verbatim>\<open>event_id\<close> and \<^verbatim>\<open>timestamp\<close> into the caller's object, so the second frame
  carries both, and the history holds the one object twice, under one identifier.
\<close>

lemma resent_message_carries_timestamp:
  "\<exists>s1 s2. sendClientEvent ''id-1'' ''10:30:00'' 4 (example_with response_create) = Inr s1
     \<and> \<not> payload_has ''timestamp'' (snd (last (wire s1)))
     \<and> sendClientEvent ''id-2'' ''10:31:00'' 4 s1 = Inr s2
     \<and> payload_has ''timestamp'' (snd (last (wire s2)))
     \<and> events s2 = [4, 4]
     \<and> field ''event_id'' (heap s2 4) = JStr ''id-1''"
  by (simp add: sendClientEvent_def example_with_eq example_active_eq field_def
      payload_has_def response_create_def)

text \<open>
  \<^verbatim>\<open>sendTextMessage\<close> on the open channel: two frames, and their two objects at the
  head of the history, the later one first, each with the identifier generated for it.
\<close>

lemma text_message_sends_two_frames:
  "\<exists>s'. sendTextMessage ''id-1'' ''10:30:00'' ''id-2'' ''10:30:00'' ''hello'' example_active = Inr s'
     \<and> map fst (wire s') = [3, 3]
     \<and> map (field ''type'' \<circ> snd) (wire s') =
          [JStr ''conversation.item.create'', JStr ''response.create'']
     \<and> events s' = [5, 4]
     \<and> field ''type'' (heap s' 5) = JStr ''response.create''
     \<and> field ''event_id'' (heap s' 5) = JStr ''id-2''
     \<and> field ''type'' (heap s' 4) = JStr ''conversation.item.create''
     \<and> field ''event_id'' (heap s' 4) = JStr ''id-1''"
  by (simp add: sendTextMessage_def sendClientEvent_def new_object_def example_active_eq
      field_def Let_def)

text \<open>
  C4, as the code has it. An object sent on an open channel is recorded with a truthy
  \<^verbatim>\<open>event_id\<close>: its own if it had a truthy one, else the generated one. An object
  received on the channel is recorded with the \<^verbatim>\<open>event_id\<close> of the payload, absent
  if the payload had none.
\<close>

theorem local_ids_generated_remote_ids_kept:
  "(\<forall>h. dataChannel s = Some h \<and> dcState s h = Open \<and> is_object (heap s m) \<and> uuid \<noteq> [] \<longrightarrow>
      (\<exists>s'. sendClientEvent uuid now m s = Inr s'
         \<and> events s' = m # events s
         \<and> truthy (field ''event_id'' (heap s' m))
         \<and> field ''event_id'' (heap s' m) =
             (if truthy (field ''event_id'' (heap s m)) then field ''event_id'' (heap s m)
              else JStr uuid)))
   \<and> (is_object v \<longrightarrow>
      (\<exists>s'. on_message now (Some v) s = Inr s'
         \<and> events s' = fresh s # events s
         \<and> field ''event_id'' (heap s' (fresh s)) = field ''event_id'' v))"
proof (intro conjI allI impI)
  fix h
  assume a: "dataChannel s = Some h \<and> dcState s h = Open \<and> is_object (heap s m) \<and> uuid \<noteq> []"
  then obtain v1 v2 where
    v1: "set_prop ''event_id''
        (if truthy (field ''event_id'' (heap s m)) then field ''event_id'' (heap s m)
         else JStr uuid) (heap s m) = Inr v1"
    and v2: "if truthy (field ''timestamp'' v1) then v2 = v1
        else set_prop ''timestamp'' (JStr now) v1 = Inr v2"
    and run: "sendClientEvent uuid now m s =
        Inr (s\<lparr>wire := wire s @ [(h, v1)], heap := (heap s)(m := v2), events := m # events s\<rparr>)"
    using sendClientEvent_open [of s h m uuid now] by blast
  have id1: "field ''event_id'' v1 =
      (if truthy (field ''event_id'' (heap s m)) then field ''event_id'' (heap s m) else JStr uuid)"
    using field_set_prop [OF v1, of "''event_id''"] by simp
  have id2: "field ''event_id'' v2 = field ''event_id'' v1"
    using v2 by (auto simp: field_set_prop split: if_splits)
  show "\<exists>s'. sendClientEvent uuid now m s = Inr s'
         \<and> events s' = m # events s
         \<and> truthy (field ''event_id'' (heap s' m))
         \<and> field ''event_id'' (heap s' m) =
             (if truthy (field ''event_id'' (heap s m)) then field ''event_id'' (heap s m)
              else JStr uuid)"
    using run id1 id2 a by auto
next
  assume o: "is_object v"
  obtain v' where v': "if truthy (field ''timestamp'' v) then v' = v
               else set_prop ''timestamp'' (JStr now) v = Inr v'"
    and run: "on_message now (Some v) s =
        Inr (s\<lparr>fresh := fresh s + 1, created := created s @ [Obj (fresh s)],
               heap := (heap s)(fresh s := v'), events := fresh s # events s\<rparr>)"
    using on_message_object [OF o] by blast
  have "field ''event_id'' v' = field ''event_id'' v"
    using v' by (auto simp: field_set_prop split: if_splits)
  then show "\<exists>s'. on_message now (Some v) s = Inr s'
         \<and> events s' = fresh s # events s
         \<and> field ''event_id'' (heap s' (fresh s)) = field ''event_id'' v"
    using run by simp
qed


theorem local_ids_generated_remote_ids_kept_witness:
  "(\<exists>s'. sendClientEvent ''id-1'' ''10:30:00'' 4 (example_with response_create) = Inr s'
       \<and> events s' = [4] \<and> field ''event_id'' (heap s' 4) = JStr ''id-1'')
   \<and> (\<exists>s'. on_message ''10:30:00'' (Some session_created) example_active = Inr s'
       \<and> events s' = [4] \<and> field ''event_id'' (heap s' 4) = JStr ''event_1'')"
  using local_ids_generated_remote_ids_kept
      [where s = "example_with response_create" and m = 4 and uuid = "''id-1''"
         and now = "''10:30:00''" and v = session_created]
    local_ids_generated_remote_ids_kept
      [where s = example_active and m = 4 and uuid = "''id-1''"
         and now = "''10:30:00''" and v = session_created]
  by (auto simp: example_with_eq example_active_eq field_def response_create_def
      session_created_def)

text \<open>
  C4 as stated fails. A payload without \<^verbatim>\<open>event_id\<close> that arrives on the channel is
  recorded without one: the listener adds a timestamp and nothing else.
\<close>

theorem remote_event_without_id_counterexample:
  "\<exists>s'. on_message ''10:30:00'' (Some anonymous_event) example_active = Inr s'
     \<and> events s' = [4]
     \<and> heap s' 4 = JObj [(''type'', JStr ''session.created''), (''timestamp'', JStr ''10:30:00'')]
     \<and> field ''event_id'' (heap s' 4) = JUndefined"
  by (simp add: on_message_def new_object_def example_active_eq field_def anonymous_event_def)

text \<open>
  C9, as the code has it. The object that \<^verbatim>\<open>sendClientEvent\<close> records differs from the
  caller's message at most in \<^verbatim>\<open>event_id\<close> and \<^verbatim>\<open>timestamp\<close>, and in each of the
  two only if the message had no truthy value there; the object that the listener
  records differs from the payload at most in \<^verbatim>\<open>timestamp\<close>, and only if the payload
  had no truthy one. No other object changes.
\<close>

theorem events_change_only_by_backfill:
  "(\<forall>h. dataChannel s = Some h \<and> dcState s h = Open \<and> is_object (heap s m) \<longrightarrow>
      (\<exists>s'. sendClientEvent uuid now m s = Inr s'
         \<and> hd (events s') = m
         \<and> (\<forall>k. k \<noteq> ''event_id'' \<and> k \<noteq> ''timestamp'' \<longrightarrow>
                field k (heap s' m) = field k (heap s m))
         \<and> (truthy (field ''event_id'' (heap s m)) \<longrightarrow>
                field ''event_id'' (heap s' m) = field ''event_id'' (heap s m))
         \<and> (truthy (field ''timestamp'' (heap s m)) \<longrightarrow>
                field ''timestamp'' (heap s' m) = field ''timestamp'' (heap s m))
         \<and> (\<forall>a. a \<noteq> m \<longrightarrow> heap s' a = heap s a)))
   \<and> (is_object v \<longrightarrow>
      (\<exists>s'. on_message now (Some v) s = Inr s'
         \<and> hd (events s') = fresh s
         \<and> (\<forall>k. k \<noteq> ''timestamp'' \<longrightarrow> field k (heap s' (fresh s)) = field k v)
         \<and> (truthy (field ''timestamp'' v) \<longrightarrow> heap s' (fresh s) = v)
         \<and> (\<forall>a. a \<noteq> fresh s \<longrightarrow> heap s' a = heap s a)))"
proof (intro conjI allI impI)
  fix h
  assume a: "dataChannel s = Some h \<and> dcState s h = Open \<and> is_object (heap s m)"
  then obtain v1 v2 where
    v1: "set_prop ''event_id''
        (if truthy (field ''event_id'' (heap s m)) then field ''event_id'' (heap s m)
         else JStr uuid) (heap s m) = Inr v1"
    and v2: "if truthy (field ''timestamp'' v1) then v2 = v1
        else set_prop ''timestamp'' (JStr now) v1 = Inr v2"
    and run: "sendClientEvent uuid now m s =
        Inr (s\<lparr>wire := wire s @ [(h, v1)], heap := (heap s)(m := v2), events := m # events s\<rparr>)"
    using sendClientEvent_open [of s h m uuid now] by blast
  have f1: "\<And>k. field k v1 = (if k = ''event_id'' then
         (if truthy (field ''event_id'' (heap s m)) then field ''event_id'' (heap s m) else JStr uuid)
         else field k (heap s m))"
    using field_set_prop [OF v1] by simp
  have f2: "\<And>k. field k v2 = (if k = ''timestamp'' \<and> \<not> truthy (field ''timestamp'' v1)
         then JStr now else field k v1)"
    using v2 by (auto simp: field_set_prop split: if_splits)
  show "\<exists>s'. sendClientEvent uuid now m s = Inr s'
         \<and> hd (events s') = m
         \<and> (\<forall>k. k \<noteq> ''event_id'' \<and> k \<noteq> ''timestamp'' \<longrightarrow>
                field k (heap s' m) = field k (heap s m))
         \<and> (truthy (field ''event_id'' (heap s m)) \<longrightarrow>
                field ''event_id'' (heap s' m) = field ''event_id'' (heap s m))
         \<and> (truthy (field ''timestamp'' (heap s m)) \<longrightarrow>
                field ''timestamp'' (heap s' m) = field ''timestamp'' (heap s m))
         \<and> (\<forall>a. a \<noteq> m \<longrightarrow> heap s' a = heap s a)"
    using run by (simp add: f1 f2)
next
  assume o: "is_object v"
  obtain v' where v': "if truthy (field ''timestamp'' v) then v' = v
               else set_prop ''timestamp'' (JStr now) v = Inr v'"
    and run: "on_message now (Some v) s =
        Inr (s\<lparr>fresh := fresh s + 1, created := created s @ [Obj (fresh s)],
               heap := (heap s)(fresh s := v'), events := fresh s # events s\<rparr>)"
    using on_message_object [OF o] by blast
  have "\<And>k. k \<noteq> ''timestamp'' \<Longrightarrow> field k v' = field k v"
    using v' by (auto simp: field_set_prop split: if_splits)
  moreover have "truthy (field ''timestamp'' v) \<Longrightarrow> v' = v"
    using v' by simp
  ultimately show "\<exists>s'. on_message now (Some v) s = Inr s'
         \<and> hd (events s') = fresh s
         \<and> (\<forall>k. k \<noteq> ''timestamp'' \<longrightarrow> field k (heap s' (fresh s)) = field k v)
         \<and> (truthy (field ''timestamp'' v) \<longrightarrow> heap s' (fresh s) = v)
         \<and> (\<forall>a. a \<noteq> fresh s \<longrightarrow> heap s' a = heap s a)"
    using run by simp
qed

theorem events_change_only_by_backfill_witness:
  "(\<exists>s'. sendClientEvent ''id-1'' ''10:30:00'' 4 (example_with stamped_message) = Inr s'
       \<and> hd (events s') = 4
       \<and> field ''type'' (heap s' 4) = JStr ''response.create''
       \<and> field ''timestamp'' (heap s' 4) = JStr ''09:15:00'')
   \<and> (\<exists>s'. on_message ''10:30:00'' (Some session_created) example_active = Inr s'
       \<and> hd (events s') = 4
       \<and> field ''type'' (heap s' 4) = JStr ''session.created''
       \<and> field ''event_id'' (heap s' 4) = JStr ''event_1'')"
  using events_change_only_by_backfill
      [where s = "example_with stamped_message" and m = 4 and uuid = "''id-1''"
         and now = "''10:30:00''" and v = session_created]
    events_change_only_by_backfill
      [where s = example_active and m = 4 and uuid = "''id-1''"
         and now = "''10:30:00''" and v = session_created]
  by (auto simp: example_with_eq example_active_eq field_def stamped_message_def
      session_created_def)

text \<open>
  C9 as stated fails. \<^verbatim>\<open>sendClientEvent\<close> writes into the caller's object a field
  other than the timestamp: a message created without \<^verbatim>\<open>event_id\<close> is recorded with
  one.
\<close>

theorem sent_event_gains_id_counterexample:
  "field ''event_id'' (heap (example_with response_create) 4) = JUndefined
   \<and> (\<exists>s'. sendClientEvent ''id-1'' ''10:30:00'' 4 (example_with response_create) = Inr s'
         \<and> hd (events s') = 4
         \<and> field ''event_id'' (heap s' 4) = JStr ''id-1'')"
  by (simp add: sendClientEvent_def example_with_eq example_active_eq field_def
      response_create_def)

end
